theory Spec2Isabelle
  imports Main "HOL-Library.AList"
begin

section \<open>JavaScript values\<close>

text \<open>
  The library works on dynamically typed data: a patch is any value, a patch step is
  read through the properties \<open>op\<close>, \<open>from\<close>, \<open>path\<close>, \<open>value\<close> and \<open>errors\<close>, and the
  objects it returns (normalized steps, \<open>ValidationError\<close> instances) are values again.
  Numbers are integers here (no claim computes with them; only their truthiness and
  their rendering in a message are used). An object is an association list in insertion
  order, read with \<open>map_of\<close> (first entry wins) and written with \<open>AList.update\<close>.
  \<open>JErr m ps\<close> is an instance of the class \<open>ValidationError\<close> of lines 26-37: its
  \<open>message\<close> and the own properties the constructor copied onto it; its \<open>name\<close> is
  always \<open>ValidationError\<close>.
\<close>

datatype jsval =
    JUndefined
  | JNull
  | JBool bool
  | JNum int
  | JStr string
  | JArr "jsval list"
  | JObj "(string \<times> jsval) list"
  | JErr string "(string \<times> jsval) list"

text \<open>The only exception the code of this library can raise by itself.\<close>

datatype jserr = TypeError

definition bindE :: "'e + 'a \<Rightarrow> ('a \<Rightarrow> 'e + 'b) \<Rightarrow> 'e + 'b" where
  "bindE m f = (case m of Inl e \<Rightarrow> Inl e | Inr a \<Rightarrow> f a)"

text \<open>Truthiness, as \<open>if(x)\<close>, \<open>!x\<close>, \<open>x || y\<close> and \<open>x && y\<close> test it.\<close>

fun truthy :: "jsval \<Rightarrow> bool" where
  "truthy JUndefined = False"
| "truthy JNull = False"
| "truthy (JBool b) = b"
| "truthy (JNum n) = (n \<noteq> 0)"
| "truthy (JStr s) = (s \<noteq> [])"
| "truthy (JArr xs) = True"
| "truthy (JObj kvs) = True"
| "truthy (JErr m ps) = True"

text \<open>
  \<open>x[prop]\<close>: reading a property of \<open>undefined\<close> or \<open>null\<close> throws; a string, number,
  boolean or array has none of the property names the library reads.
\<close>

fun getProp :: "jsval \<Rightarrow> string \<Rightarrow> jserr + jsval" where
  "getProp JUndefined k = Inl TypeError"
| "getProp JNull k = Inl TypeError"
| "getProp (JObj kvs) k = Inr (case map_of kvs k of Some v \<Rightarrow> v | None \<Rightarrow> JUndefined)"
| "getProp (JErr m ps) k =
     Inr (case map_of ps k of
            Some v \<Rightarrow> v
          | None \<Rightarrow> if k = ''message'' then JStr m
                    else if k = ''name'' then JStr ''ValidationError''
                    else JUndefined)"
| "getProp v k = Inr JUndefined"

subsection \<open>Rendering a value in a message\<close>

fun digitsOf :: "nat \<Rightarrow> string" where
  "digitsOf n =
     (if n < 10 then [''0123456789'' ! n]
      else digitsOf (n div 10) @ [''0123456789'' ! (n mod 10)])"

declare digitsOf.simps [simp del]

fun joinComma :: "string list \<Rightarrow> string" where
  "joinComma [] = []"
| "joinComma [s] = s"
| "joinComma (s # t # ts) = s @ '','' @ joinComma (t # ts)"

text \<open>\<open>Error.prototype.toString\<close> for a \<open>ValidationError\<close> with the given message.\<close>

definition errorToString :: "string \<Rightarrow> string" where
  "errorToString m = (if m = [] then ''ValidationError'' else ''ValidationError: '' @ m)"

text \<open>String conversion, as a template literal \<open>`${x}`\<close> and \<open>Error(x)\<close> do it.\<close>

fun toStr :: "jsval \<Rightarrow> string" where
  "toStr JUndefined = ''undefined''"
| "toStr JNull = ''null''"
| "toStr (JBool b) = (if b then ''true'' else ''false'')"
| "toStr (JNum n) = (if n < 0 then ''-'' @ digitsOf (nat (- n)) else digitsOf (nat n))"
| "toStr (JStr s) = s"
| "toStr (JArr xs) =
     joinComma (map (\<lambda>x. if x = JUndefined \<or> x = JNull then [] else toStr x) xs)"
| "toStr (JObj kvs) = ''[object Object]''"
| "toStr (JErr m ps) = errorToString m"

section \<open>The schema tree\<close>

text \<open>
  A schema node is either a plain nested container (an ordinary object from field name to
  child node, \<open>isJoi\<close> absent) or a rule built by the validation engine (\<open>isJoi\<close> true). Of
  a rule the resolver reads \<open>_type\<close>, \<open>_inner.items\<close> (the item rules of an array rule)
  and \<open>_inner.children\<close> (the \<open>{key, schema}\<close> entries of an object rule; \<open>None\<close> where
  the engine leaves it \<open>null\<close> or \<open>undefined\<close>, as it does for every rule that declares
  no keys). The constraints of a rule are the engine's own business: \<open>'r\<close>.
  An absent node (\<open>undefined\<close> or \<open>null\<close>, both falsy and never told apart) is \<open>None\<close>.
  A plain container is read by its own fields; what a JavaScript object inherits
  (\<open>constructor\<close> and the like) is not modelled.
\<close>

datatype 'r schema =
    Plain "(string \<times> 'r schema) list"
  | Rule 'r string "'r schema list" "(string \<times> 'r schema) list option"

type_synonym 'r cursor = "'r schema option"

subsection \<open>getValidator (lines 44-68)\<close>

text \<open>\<open>s.split(c)\<close> for a one-character separator.\<close>

fun split_on :: "char \<Rightarrow> string \<Rightarrow> string list" where
  "split_on c [] = [[]]"
| "split_on c (x # xs) =
     (if x = c then [] # split_on c xs
      else (case split_on c xs of w # ws \<Rightarrow> (x # w) # ws | [] \<Rightarrow> [[x]]))"

text \<open>
  \<open>(pointer || '').split('/').splice(1)\<close>: a falsy pointer counts as the empty string, a
  truthy one that is no string has no \<open>split\<close> method; \<open>splice(1)\<close> returns every part
  but the first.
\<close>

definition pointerParts :: "jsval \<Rightarrow> jserr + string list" where
  "pointerParts pointer =
     (if \<not> truthy pointer then Inr (tl (split_on CHR ''/'' []))
      else case pointer of
             JStr s \<Rightarrow> Inr (tl (split_on CHR ''/'' s))
           | _ \<Rightarrow> Inl TypeError)"

text \<open>The callback of \<open>parts.forEach\<close>: one segment moves the cursor.\<close>

fun descend :: "'r cursor \<Rightarrow> string \<Rightarrow> jserr + 'r cursor" where
  "descend None key = Inr None"
| "descend (Some (Plain container)) key = Inr (map_of container key)"
| "descend (Some (Rule r ty items children)) key =
     (if ty = ''array''
      then Inr (if length items = 1 then Some (items ! 0) else None)
      else case children of
             None \<Rightarrow> Inl TypeError
           | Some cs \<Rightarrow>
               Inr (case find (\<lambda>obj. fst obj = key) cs of
                      Some child \<Rightarrow> Some (snd child)
                    | None \<Rightarrow> None))"

fun walk :: "'r cursor \<Rightarrow> string list \<Rightarrow> jserr + 'r cursor" where
  "walk cursor [] = Inr cursor"
| "walk cursor (key # parts) = bindE (descend cursor key) (\<lambda>c. walk c parts)"

definition getValidator :: "'r schema \<Rightarrow> jsval \<Rightarrow> jserr + 'r cursor" where
  "getValidator schema pointer = bindE (pointerParts pointer) (walk (Some schema))"

section \<open>The error class (lines 26-42)\<close>

text \<open>\<open>if(patchStep[prop]) this[prop] = patchStep[prop]\<close>, with \<open>this\<close> passed along.\<close>

definition addProp ::
  "jsval \<Rightarrow> (string \<times> jsval) list \<Rightarrow> string \<Rightarrow> jserr + (string \<times> jsval) list" where
  "addProp patchStep this prop =
     bindE (getProp patchStep prop)
       (\<lambda>v. Inr (if truthy v then AList.update prop v this else this))"

fun addProps ::
  "jsval \<Rightarrow> (string \<times> jsval) list \<Rightarrow> string list \<Rightarrow> jserr + (string \<times> jsval) list" where
  "addProps patchStep this [] = Inr this"
| "addProps patchStep this (prop # props) =
     bindE (addProp patchStep this prop) (\<lambda>this'. addProps patchStep this' props)"

text \<open>\<open>s.replace(c, d)\<close> with a string pattern: the first occurrence only.\<close>

fun replace_first :: "char \<Rightarrow> char \<Rightarrow> string \<Rightarrow> string" where
  "replace_first c d [] = []"
| "replace_first c d (x # xs) = (if x = c then d # xs else x # replace_first c d xs)"

text \<open>
  \<open>new ValidationError(message, patchStep)\<close>. A truthy \<open>path\<close> that is no string has no
  \<open>replace\<close> method. \<open>substr(1)\<close> drops the first character.
\<close>

definition ValidationError :: "string \<Rightarrow> jsval \<Rightarrow> jserr + jsval" where
  "ValidationError message patchStep =
     (if \<not> truthy patchStep then Inr (JErr message [])
      else
        bindE (addProps patchStep [] [''op'', ''from'', ''path'', ''value'', ''errors''])
          (\<lambda>this.
             case map_of this ''path'' of
               None \<Rightarrow> Inr (JErr message this)
             | Some p \<Rightarrow>
                 if \<not> truthy p then Inr (JErr message this)
                 else (case p of
                         JStr s \<Rightarrow>
                           Inr (JErr message
                                  (AList.update ''path''
                                     (JStr (drop 1 (replace_first CHR ''/'' CHR ''.'' s))) this))
                       | _ \<Rightarrow> Inl TypeError)))"

section \<open>Options and the two external capabilities\<close>

text \<open>
  The options the engine understands, and the library's own \<open>allowedOps\<close> on top of them.
  \<open>deleteAllowedOps\<close> is \<open>opts = Object.assign({}, options); delete opts.allowedOps\<close>.
\<close>

record joi_options =
  abortEarly :: bool
  allowUnknown :: bool
  convert :: bool
  others :: "(string \<times> jsval) list"

record options = joi_options +
  allowedOps :: "string list"

definition deleteAllowedOps :: "options \<Rightarrow> joi_options" where
  "deleteAllowedOps options =
     \<lparr>abortEarly = abortEarly options, allowUnknown = allowUnknown options,
      convert = convert options, others = others options\<rparr>"

definition defaultOptions :: options where
  "defaultOptions =
     \<lparr>abortEarly = True, allowUnknown = False, convert = True, others = [],
      allowedOps = [''add'', ''remove'', ''replace'', ''copy'', ''move'', ''test'']\<rparr>"

text \<open>What a caller passes as \<open>options\<close>: any subset of the keys.\<close>

record user_options =
  set_abortEarly :: "bool option"
  set_allowedOps :: "string list option"
  set_allowUnknown :: "bool option"
  set_convert :: "bool option"
  set_others :: "(string \<times> jsval) list"

text \<open>\<open>Object.assign({}, defaultOptions, options || {})\<close>.\<close>

definition assignDefaults :: "user_options option \<Rightarrow> options" where
  "assignDefaults options =
     (case options of
        None \<Rightarrow> defaultOptions
      | Some u \<Rightarrow>
          \<lparr>abortEarly = (case set_abortEarly u of Some b \<Rightarrow> b | None \<Rightarrow> abortEarly defaultOptions),
           allowUnknown = (case set_allowUnknown u of Some b \<Rightarrow> b | None \<Rightarrow> allowUnknown defaultOptions),
           convert = (case set_convert u of Some b \<Rightarrow> b | None \<Rightarrow> convert defaultOptions),
           others = set_others u,
           allowedOps = (case set_allowedOps u of Some ops \<Rightarrow> ops | None \<Rightarrow> allowedOps defaultOptions)\<rparr>)"

text \<open>
  The value-validation engine \<open>Joi.validate(value, rule, opts)\<close> is a parameter of the
  model, a function to this record: \<open>joi_error\<close> is \<open>result.error.toString()\<close>, \<open>None\<close>
  when \<open>result.error\<close> is null; \<open>joi_value\<close> is \<open>result.value\<close>.
  The shape check \<open>jsonpatch.validate([step])\<close> is a parameter too, a function from the
  step to the message of the error it returns, \<open>None\<close> when it returns none.
\<close>

record joi_result =
  joi_error :: "string option"
  joi_value :: jsval

type_synonym 'r engine = "jsval \<Rightarrow> 'r schema \<Rightarrow> joi_options \<Rightarrow> joi_result"

type_synonym shape_check = "jsval \<Rightarrow> string option"

section \<open>validateStep (lines 74-124)\<close>

record outcome =
  res_error :: jsval
  res_value :: jsval

definition fail :: "jsval \<Rightarrow> string \<Rightarrow> jserr + outcome" where
  "fail step msg =
     bindE (ValidationError msg step) (\<lambda>e. Inr \<lparr>res_error = e, res_value = JNull\<rparr>)"

definition pass :: "(string \<times> jsval) list \<Rightarrow> jserr + outcome" where
  "pass clean = Inr \<lparr>res_error = JNull, res_value = JObj clean\<rparr>"

text \<open>
  \<open>Object.assign({}, step)\<close>: the own enumerable properties of the step. An array or a
  string has its indices, a number, a boolean, \<open>null\<close> and \<open>undefined\<close> have none.
\<close>

fun objectAssign :: "jsval \<Rightarrow> (string \<times> jsval) list" where
  "objectAssign (JObj kvs) = kvs"
| "objectAssign (JErr m ps) = AList.update ''name'' (JStr ''ValidationError'') ps"
| "objectAssign (JArr xs) = zip (map digitsOf [0..<length xs]) xs"
| "objectAssign (JStr s) = zip (map digitsOf [0..<length s]) (map (\<lambda>c. JStr [c]) s)"
| "objectAssign v = []"

text \<open>
  \<open>allowed.indexOf(step.op) < 0\<close> compares with strict equality, and \<open>allowed\<close> holds
  strings: only a string that is listed is found.
\<close>

definition indexOf_found :: "string list \<Rightarrow> jsval \<Rightarrow> bool" where
  "indexOf_found allowed op = (case op of JStr s \<Rightarrow> s \<in> set allowed | _ \<Rightarrow> False)"

text \<open>
  Past the allow-list the \<open>op\<close> is a string, so \<open>step.op == 'move'\<close> and
  \<open>step.op == 'remove'\<close> are equalities of strings. The empty block of lines 106-108
  does nothing and is left out.
\<close>

definition validateStep ::
  "shape_check \<Rightarrow> 'r engine \<Rightarrow> 'r schema \<Rightarrow> options \<Rightarrow> jsval \<Rightarrow> jserr + outcome" where
  "validateStep jsonpatch_validate Joi_validate schema options step =
     (case jsonpatch_validate step of
        Some formatErr \<Rightarrow>
          bindE (ValidationError formatErr JUndefined) (\<lambda>msg. fail step (toStr msg))
      | None \<Rightarrow>
          (let opts = deleteAllowedOps options;
               clean = objectAssign step;
               allowed = allowedOps options
           in
           bindE (getProp step ''path'') (\<lambda>path.
           bindE (getValidator schema path) (\<lambda>rule.
           bindE (getProp step ''op'') (\<lambda>op.
           if \<not> indexOf_found allowed op then fail step (''disallowed op '' @ toStr op)
           else if rule = None \<and> \<not> allowUnknown opts
             then fail step (''invalid path '' @ toStr path)
           else
           bindE (getProp step ''from'') (\<lambda>from.
           bindE (if truthy from then getValidator schema from else Inr None) (\<lambda>source.
           if truthy from \<and> source = None \<and> \<not> allowUnknown opts
             then fail step (''invalid source '' @ toStr path)
           else
           case (if truthy from \<and> op = JStr ''move''
                 then (case source of
                         Some s \<Rightarrow> joi_error (Joi_validate JUndefined s opts)
                       | None \<Rightarrow> None)
                 else None) of
             Some e \<Rightarrow> fail step e
           | None \<Rightarrow>
           case (if op = JStr ''remove''
                 then (case rule of
                         Some r \<Rightarrow> joi_error (Joi_validate JUndefined r opts)
                       | None \<Rightarrow> None)
                 else None) of
             Some e \<Rightarrow> fail step e
           | None \<Rightarrow>
           bindE (getProp step ''value'') (\<lambda>v.
           case rule of
             Some r \<Rightarrow>
               if truthy v
               then (let result = Joi_validate v r opts;
                         clean' = AList.update ''value'' (joi_value result) clean
                     in case joi_error result of
                          Some e \<Rightarrow> fail step e
                        | None \<Rightarrow> pass clean')
               else pass clean
           | None \<Rightarrow> pass clean))))))))"

section \<open>validate (lines 141-182)\<close>

text \<open>
  The callback of \<open>patch.every\<close>, run over the steps in order with the two accumulators
  \<open>sanitized\<close> and \<open>errors\<close>; returning \<open>false\<close> ends the iteration.
\<close>

fun every ::
  "shape_check \<Rightarrow> 'r engine \<Rightarrow> 'r schema \<Rightarrow> options \<Rightarrow> jsval list \<Rightarrow>
   jsval list \<times> jsval list \<Rightarrow> jserr + jsval list \<times> jsval list" where
  "every jv Jv schema options [] (sanitized, errors) = Inr (sanitized, errors)"
| "every jv Jv schema options (step # rest) (sanitized, errors) =
     bindE (validateStep jv Jv schema options step) (\<lambda>result.
       let sanitized' =
             (if truthy (res_value result) then sanitized @ [res_value result] else sanitized)
       in if truthy (res_error result)
          then (if abortEarly options
                then Inr (sanitized', errors @ [res_error result])
                else every jv Jv schema options rest (sanitized', errors @ [res_error result]))
          else every jv Jv schema options rest (sanitized', errors))"

text \<open>Lines 171-175: ``encapsulate failures in a single error''.\<close>

definition encapsulate :: "jsval list \<Rightarrow> jserr + jsval" where
  "encapsulate errors =
     (if length errors = 1 then Inr (errors ! 0)
      else if length errors > 1
        then ValidationError ''patch invalid'' (JObj [(''errors'', JArr errors)])
      else Inr JNull)"

text \<open>
  \<open>validate(patch, schema, options)\<close>, returning \<open>{error, value}\<close>. With a callback the
  same two values are handed to it instead; the callback is not modelled. After line 144
  \<open>patch\<close> is an array, so \<open>!patch || !patch[0]\<close> is \<open>!patch[0]\<close>, and \<open>patch[0]\<close> of the
  empty array is \<open>undefined\<close>.
\<close>

definition validate ::
  "shape_check \<Rightarrow> 'r engine \<Rightarrow> jsval \<Rightarrow> 'r schema \<Rightarrow> user_options option \<Rightarrow> jserr + outcome" where
  "validate jsonpatch_validate Joi_validate patch schema options =
     (let patch1 = (case patch of JArr steps \<Rightarrow> steps | _ \<Rightarrow> [patch]);
          options' = assignDefaults options;
          first = (case patch1 of [] \<Rightarrow> JUndefined | step # _ \<Rightarrow> step)
      in
      bindE (if \<not> truthy first
             then bindE (ValidationError ''empty patch'' JUndefined) (\<lambda>e. Inr ([e], []))
             else Inr ([], patch1)) (\<lambda>(errors0, patch2).
      bindE (every jsonpatch_validate Joi_validate schema options' patch2 ([], errors0))
        (\<lambda>(sanitized, errors).
      bindE (encapsulate errors) (\<lambda>err.
        Inr \<lparr>res_error = err, res_value = JArr sanitized\<rparr>))))"

section \<open>Stand-ins for the external capabilities, and the schema of the tests\<close>

text \<open>
  The theorems below hold for every shape check and every engine. To run the code on
  concrete inputs, this section fixes one of each: a shape check that refuses what is
  no object, an unknown \<open>op\<close>, a \<open>path\<close> that is no string, a \<open>move\<close> or \<open>copy\<close> without a
  string \<open>from\<close> and an \<open>add\<close>, \<open>replace\<close> or \<open>test\<close> without a \<open>value\<close>; and a small
  engine with four kinds of rule, which converts a numeric string to a number when
  \<open>convert\<close> is set. \<open>testSchema\<close> is the schema of the test suite without its date
  field; the engine compiles the nested plain object under \<open>meta\<close> into an object rule.
\<close>

definition toyShapeCheck :: shape_check where
  "toyShapeCheck step =
     (case step of
        JObj kvs \<Rightarrow>
          (case map_of kvs ''op'' of
             Some (JStr opname) \<Rightarrow>
               if opname \<notin> set [''add'', ''remove'', ''replace'', ''copy'', ''move'', ''test'']
               then Some ''Operation op property is not one of operations defined in RFC-6902''
               else (case map_of kvs ''path'' of
                       Some (JStr p) \<Rightarrow>
                         if opname \<in> set [''move'', ''copy'']
                            \<and> (case map_of kvs ''from'' of Some (JStr f) \<Rightarrow> False | _ \<Rightarrow> True)
                         then Some ''Operation from property is not present''
                         else if opname \<in> set [''add'', ''replace'', ''test'']
                            \<and> (case map_of kvs ''value'' of
                                  None \<Rightarrow> True | Some JUndefined \<Rightarrow> True | _ \<Rightarrow> False)
                         then Some ''Operation value property is not present''
                         else None
                     | _ \<Rightarrow> Some ''Operation path property is not a string'')
           | _ \<Rightarrow> Some ''Operation op property is not one of operations defined in RFC-6902'')
      | _ \<Rightarrow> Some ''Operation is not an object'')"

datatype toy = RequiredString | OptionalString | OptionalPositiveNumber | Unconstrained

definition accepted :: "jsval \<Rightarrow> joi_result" where
  "accepted v = \<lparr>joi_error = None, joi_value = v\<rparr>"

definition rejected :: "string \<Rightarrow> jsval \<Rightarrow> joi_result" where
  "rejected msg v = \<lparr>joi_error = Some (''ValidationError: '' @ msg), joi_value = v\<rparr>"

fun parseNat :: "string \<Rightarrow> nat \<Rightarrow> nat option" where
  "parseNat [] acc = Some acc"
| "parseNat (c # cs) acc =
     (case map_of (zip ''0123456789'' [0, 1, 2, 3, 4, 5, 6, 7, 8, 9]) c of
        None \<Rightarrow> None
      | Some d \<Rightarrow> parseNat cs (10 * acc + d))"

definition parseNumber :: "string \<Rightarrow> int option" where
  "parseNumber s =
     (case s of
        [] \<Rightarrow> None
      | c # cs \<Rightarrow>
          if c = CHR ''-''
          then (if cs = [] then None else map_option (\<lambda>n. - int n) (parseNat cs 0))
          else map_option int (parseNat s 0))"

definition toyString :: "jsval \<Rightarrow> joi_result" where
  "toyString v =
     (case v of
        JStr s \<Rightarrow> if s = [] then rejected ''value is not allowed to be empty'' v else accepted v
      | _ \<Rightarrow> rejected ''value must be a string'' v)"

definition toyPositive :: "jsval \<Rightarrow> int \<Rightarrow> joi_result" where
  "toyPositive v n =
     (if 0 < n then accepted (JNum n) else rejected ''value must be a positive number'' (JNum n))"

fun toyRule :: "toy \<Rightarrow> bool \<Rightarrow> jsval \<Rightarrow> joi_result" where
  "toyRule Unconstrained conv v = accepted v"
| "toyRule RequiredString conv v =
     (if v = JUndefined then rejected ''value is required'' v else toyString v)"
| "toyRule OptionalString conv v = (if v = JUndefined then accepted v else toyString v)"
| "toyRule OptionalPositiveNumber conv v =
     (case v of
        JUndefined \<Rightarrow> accepted v
      | JNum n \<Rightarrow> toyPositive v n
      | JStr s \<Rightarrow>
          (case (if conv then parseNumber s else None) of
             Some n \<Rightarrow> toyPositive v n
           | None \<Rightarrow> rejected ''value must be a number'' v)
      | _ \<Rightarrow> rejected ''value must be a number'' v)"

definition toyJoi :: "toy engine" where
  "toyJoi v rule opts =
     (case rule of
        Plain container \<Rightarrow> accepted v
      | Rule r ty items children \<Rightarrow> toyRule r (convert opts) v)"

definition testSchema :: "toy schema" where
  "testSchema =
     Plain
       [(''id'', Rule RequiredString ''string'' [] None),
        (''name'', Rule RequiredString ''string'' [] None),
        (''description'', Rule OptionalString ''string'' [] None),
        (''favoriteToys'',
           Rule Unconstrained ''array'' [Rule OptionalString ''string'' [] None] None),
        (''meta'',
           Rule Unconstrained ''object'' []
             (Some [(''current'',
                       Rule Unconstrained ''object'' []
                         (Some [(''weight'',
                                   Rule OptionalPositiveNumber ''number'' [] None)]))]))]"

text \<open>Steps and options of the test suite.\<close>

definition invalidFrom :: jsval where
  "invalidFrom =
     JObj [(''op'', JStr ''move''), (''from'', JStr ''/blah''), (''path'', JStr ''/description'')]"

definition invalidPath :: jsval where
  "invalidPath = JObj [(''op'', JStr ''remove''), (''path'', JStr ''/blah'')]"

definition replaceWeight :: jsval where
  "replaceWeight =
     JObj [(''op'', JStr ''replace''), (''path'', JStr ''/meta/current/weight''),
           (''value'', JNum 4)]"

definition noOptions :: user_options where
  "noOptions =
     \<lparr>set_abortEarly = None, set_allowedOps = None, set_allowUnknown = None,
      set_convert = None, set_others = []\<rparr>"


definition moveId :: jsval where
  "moveId = JObj [(''op'', JStr ''move''), (''from'', JStr ''/id''), (''path'', JStr ''/description'')]"

definition removeWeight :: jsval where
  "removeWeight = JObj [(''op'', JStr ''remove''), (''path'', JStr ''/meta/current/weight'')]"

definition moveIdAway :: jsval where
  "moveIdAway = JObj [(''op'', JStr ''move''), (''from'', JStr ''/id''), (''path'', JStr ''/blah'')]"

definition addEmptyName :: jsval where
  "addEmptyName = JObj [(''op'', JStr ''add''), (''path'', JStr ''/name''), (''value'', JStr [])]"

definition addBadWeight :: jsval where
  "addBadWeight =
     JObj [(''op'', JStr ''add''), (''path'', JStr ''/meta/current/weight''),
           (''value'', JStr ''blah'')]"

section \<open>The steps a run of the loop visits\<close>

text \<open>
  For the statements about batches: given the outcomes of the steps in input order,
  \<open>processed\<close> keeps those the loop of \<open>validate\<close> reaches: all of them, or with
  \<open>abortEarly\<close> those up to and including the first that carries an error.
\<close>

fun processed :: "bool \<Rightarrow> outcome list \<Rightarrow> outcome list" where
  "processed stop [] = []"
| "processed stop (r # rs) =
     r # (if truthy (res_error r) \<and> stop then [] else processed stop rs)"

text \<open>A top-level input that is neither an array nor an object.\<close>

fun scalar :: "jsval \<Rightarrow> bool" where
  "scalar (JBool b) = True"
| "scalar (JNum n) = True"
| "scalar (JStr s) = True"
| "scalar v = False"

section \<open>Basic facts\<close>


lemma getProp_object: "getProp step k = Inr x \<Longrightarrow> \<exists>y. getProp step k' = Inr y"
  by (cases step) simp_all

lemma pointerParts_string:
  "pointerParts p = Inr parts \<Longrightarrow> truthy p \<Longrightarrow> \<exists>s. p = JStr s"
  by (cases p) (simp_all add: pointerParts_def)

lemma getValidator_string:
  "getValidator schema p = Inr c \<Longrightarrow> truthy p \<Longrightarrow> \<exists>s. p = JStr s"
  by (cases p) (simp_all add: getValidator_def pointerParts_def bindE_def)

lemma ValidationError_returns:
  assumes "getProp step ''path'' = Inr path" and "getValidator schema path = Inr c"
  shows "\<exists>props. ValidationError msg step = Inr (JErr msg props)"
proof (cases "truthy step")
  case False
  then show ?thesis by (simp add: ValidationError_def)
next
  case True
  obtain vo vf vv ve where g:
    "getProp step ''op'' = Inr vo" "getProp step ''from'' = Inr vf"
    "getProp step ''value'' = Inr vv" "getProp step ''errors'' = Inr ve"
    using getProp_object [OF assms(1)] by metis
  show ?thesis
  proof (cases "truthy path")
    case False
    with True g assms(1) show ?thesis
      by (simp add: ValidationError_def addProp_def bindE_def update_conv')
  next
    case t: True
    then obtain s where "path = JStr s" using getValidator_string [OF assms(2)] by blast
    with True g assms(1) t show ?thesis
      by (simp add: ValidationError_def addProp_def bindE_def update_conv')
  qed
qed

lemma fail_returns:
  assumes "getProp step ''path'' = Inr path" and "getValidator schema path = Inr c"
  shows "\<exists>props. fail step msg = Inr \<lparr>res_error = JErr msg props, res_value = JNull\<rparr>"
  using ValidationError_returns [OF assms, of msg] by (auto simp: fail_def bindE_def)

lemma processed_all: "processed False results = results"
  by (induction results) simp_all

lemma every_run:
  assumes "map (validateStep jv Jv schema options) steps = map Inr results"
  shows "every jv Jv schema options steps (sanitized, errors) =
           Inr (sanitized @ filter truthy (map res_value (processed (abortEarly options) results)),
                errors @ filter truthy (map res_error (processed (abortEarly options) results)))"
  using assms
proof (induction steps arbitrary: results sanitized errors)
  case Nil
  then show ?case by simp
next
  case (Cons step steps)
  then obtain r rs where results: "results = r # rs" by (cases results) auto
  with Cons.prems have r: "validateStep jv Jv schema options step = Inr r"
    and rs: "map (validateStep jv Jv schema options) steps = map Inr rs" by simp_all
  show ?case
    using Cons.IH [OF rs] by (simp add: results r bindE_def Let_def)
qed

lemma encapsulate_cases:
  "encapsulate errors =
     Inr (case errors of
            [] \<Rightarrow> JNull
          | [e] \<Rightarrow> e
          | _ \<Rightarrow> JErr ''patch invalid'' [(''errors'', JArr errors)])"
proof (cases errors)
  case Nil
  then show ?thesis by (simp add: encapsulate_def)
next
  case (Cons e es)
  then show ?thesis
    by (cases es) (simp_all add: encapsulate_def ValidationError_def addProp_def bindE_def)
qed

lemma validate_empty:
  assumes "\<not> truthy (case patch of JArr [] \<Rightarrow> JUndefined | JArr (x # xs) \<Rightarrow> x | _ \<Rightarrow> patch)"
  shows "validate jv Jv patch schema uo =
           Inr \<lparr>res_error = JErr ''empty patch'' [], res_value = JArr []\<rparr>"
  using assms
  by (simp add: validate_def Let_def bindE_def ValidationError_def encapsulate_def
      split: jsval.splits list.splits)

lemma validate_run:
  assumes "map (validateStep jv Jv schema (assignDefaults uo)) steps = map Inr results"
    and "steps = (case patch of JArr xs \<Rightarrow> xs | _ \<Rightarrow> [patch])"
    and "truthy (hd steps)" and "steps \<noteq> []"
  shows "validate jv Jv patch schema uo =
           bindE (encapsulate (filter truthy (map res_error
                    (processed (abortEarly (assignDefaults uo)) results))))
             (\<lambda>err. Inr \<lparr>res_error = err,
                res_value = JArr (filter truthy (map res_value
                    (processed (abortEarly (assignDefaults uo)) results)))\<rparr>)"
proof -
  have first: "(case steps of [] \<Rightarrow> JUndefined | step # x \<Rightarrow> step) = hd steps"
    using assms(4) by (cases steps) simp_all
  show ?thesis
    unfolding validate_def Let_def assms(2) [symmetric] first
    using assms(3) by (simp add: bindE_def every_run [OF assms(1)])
qed

lemma ValidationError_shape:
  "ValidationError msg step = Inr e \<Longrightarrow> \<exists>props. e = JErr msg props"
  by (auto simp: ValidationError_def bindE_def split: if_splits sum.splits option.splits jsval.splits)

lemma fail_shape:
  "fail step msg = Inr out \<Longrightarrow> (\<exists>props. res_error out = JErr msg props) \<and> res_value out = JNull"
  by (auto simp: fail_def bindE_def split: sum.splits dest: ValidationError_shape)

lemma pass_shape:
  "pass clean = Inr out \<Longrightarrow> res_error out = JNull \<and> res_value out = JObj clean"
  by (auto simp: pass_def)

lemma validateStep_outcome:
  assumes "validateStep jv Jv schema options step = Inr out"
  shows "truthy (res_value out) \<longleftrightarrow> res_error out = JNull"
proof -
  have "(\<exists>msg. fail step msg = Inr out) \<or> (\<exists>clean. pass clean = Inr out)"
    using assms
    by (auto simp: validateStep_def bindE_def Let_def split: option.splits sum.splits if_splits)
  then show ?thesis
    by (auto dest!: fail_shape pass_shape)
qed

lemma collected_values:
  assumes "map (validateStep jv Jv schema options) steps = map Inr results"
  shows "filter truthy (map res_value (processed stop results)) =
         map res_value (filter (\<lambda>r. res_error r = JNull) (processed stop results))"
proof -
  have each: "\<forall>r \<in> set results. truthy (res_value r) \<longleftrightarrow> res_error r = JNull"
  proof
    fix r assume "r \<in> set results"
    then have "Inr r \<in> set (map (validateStep jv Jv schema options) steps)"
      unfolding assms by simp
    then obtain step where "validateStep jv Jv schema options step = Inr r" by auto
    then show "truthy (res_value r) \<longleftrightarrow> res_error r = JNull" by (rule validateStep_outcome)
  qed
  have sub: "set (processed stop results) \<subseteq> set results"
    by (induction results) auto
  have "\<forall>r \<in> set (processed stop results). truthy (res_value r) \<longleftrightarrow> res_error r = JNull"
    using each sub by blast
  then show ?thesis
    by (induction "processed stop results") (auto simp: filter_map comp_def cong: filter_cong)
qed

lemma truthy_prop_object: "getProp step k = Inr v \<Longrightarrow> truthy v \<Longrightarrow> truthy step"
  by (cases step) auto

lemma ValidationError_value:
  assumes "getProp step ''path'' = Inr path" and "getValidator schema path = Inr c"
    and "getProp step ''value'' = Inr v" and "truthy v"
  shows "\<exists>props. ValidationError msg step = Inr (JErr msg props) \<and> map_of props ''value'' = Some v"
proof -
  have step: "truthy step" using assms(3,4) by (rule truthy_prop_object)
  obtain vo vf ve where g:
    "getProp step ''op'' = Inr vo" "getProp step ''from'' = Inr vf"
    "getProp step ''errors'' = Inr ve"
    using getProp_object [OF assms(1)] by metis
  show ?thesis
  proof (cases "truthy path")
    case False
    with step g assms(1,3,4) show ?thesis
      by (simp add: ValidationError_def addProp_def bindE_def update_conv')
  next
    case True
    then obtain s where "path = JStr s" using getValidator_string [OF assms(2)] by blast
    with step g assms(1,3,4) True show ?thesis
      by (simp add: ValidationError_def addProp_def bindE_def update_conv')
  qed
qed

lemmas step_defs = validateStep_def Let_def bindE_def indexOf_found_def pass_def deleteAllowedOps_def

section \<open>The claims\<close>

text \<open>
  C1, as amended. Take an allowed operation other than \<open>remove\<close> that passes the shape
  check, has no \<open>from\<close>, carries a truthy value and whose target path resolves to a
  rule. The engine is run on the value. When it accepts, the output operation is the
  copy of the step with \<open>value\<close> replaced by the engine's normalized value. When it
  rejects, the operation validator returns the error with value \<open>null\<close>: the normalized
  value is dropped, and the error object carries the value of the step as it was given.
  The sequence \<open>validate\<close> returns holds the output operations of exactly those
  processed steps whose error is null, in input order: a failed operation adds nothing.
\<close>

theorem normalized_value_kept_on_pass_only:
  assumes shape: "jv step = None"
    and path: "getProp step ''path'' = Inr path"
    and rule: "getValidator schema path = Inr (Some r)"
    and op: "getProp step ''op'' = Inr (JStr opname)"
    and allowed: "opname \<in> set (allowedOps options)"
    and no_remove: "opname \<noteq> ''remove''"
    and "from": "getProp step ''from'' = Inr from" "\<not> truthy from"
    and v: "getProp step ''value'' = Inr v" "truthy v"
    and result: "result = Jv v r (deleteAllowedOps options)"
    and batch: "map (validateStep jv Jv schema (assignDefaults uo)) steps = map Inr results"
      "steps \<noteq> []" "truthy (hd steps)"
  shows "(joi_error result = None \<longrightarrow>
            validateStep jv Jv schema options step =
              Inr \<lparr>res_error = JNull,
                   res_value = JObj (AList.update ''value'' (joi_value result) (objectAssign step))\<rparr>)
       \<and> (\<forall>e. joi_error result = Some e \<longrightarrow>
            (\<exists>props. validateStep jv Jv schema options step =
                       Inr \<lparr>res_error = JErr e props, res_value = JNull\<rparr>
                     \<and> map_of props ''value'' = Some v))
       \<and> (\<exists>out. validate jv Jv (JArr steps) schema uo = Inr out
                \<and> res_value out =
                    JArr (map res_value
                           (filter (\<lambda>r. res_error r = JNull)
                              (processed (abortEarly (assignDefaults uo)) results))))"
proof (intro conjI impI allI)
  assume "joi_error result = None"
  then show "validateStep jv Jv schema options step =
              Inr \<lparr>res_error = JNull,
                   res_value = JObj (AList.update ''value'' (joi_value result) (objectAssign step))\<rparr>"
    using assms(1-11) by (simp add: step_defs)
next
  fix e assume e: "joi_error result = Some e"
  have run: "validateStep jv Jv schema options step = fail step e"
    using assms(1-11) e by (simp add: step_defs)
  obtain props where props: "ValidationError e step = Inr (JErr e props)"
    "map_of props ''value'' = Some v"
    using ValidationError_value [OF path rule v] by blast
  show "\<exists>props. validateStep jv Jv schema options step =
                       Inr \<lparr>res_error = JErr e props, res_value = JNull\<rparr>
                     \<and> map_of props ''value'' = Some v"
    using run props by (simp add: fail_def bindE_def)
next
  show "\<exists>out. validate jv Jv (JArr steps) schema uo = Inr out
                \<and> res_value out =
                    JArr (map res_value
                           (filter (\<lambda>r. res_error r = JNull)
                              (processed (abortEarly (assignDefaults uo)) results)))"
    using validate_run [OF batch(1), of "JArr steps"] batch(2,3)
    by (simp add: encapsulate_cases bindE_def collected_values [OF batch(1)])
qed

text \<open>
  The test suite's numeric conversion (\<open>'4'\<close> becomes \<open>4\<close>), and its batch of three
  steps of which only the second passes.
\<close>

theorem normalized_value_kept_on_pass_only_witness:
  "validateStep toyShapeCheck toyJoi testSchema defaultOptions
     (JObj [(''op'', JStr ''add''), (''path'', JStr ''/meta/current/weight''), (''value'', JStr ''4'')]) =
     Inr \<lparr>res_error = JNull,
          res_value = JObj [(''op'', JStr ''add''), (''path'', JStr ''/meta/current/weight''),
                            (''value'', JNum 4)]\<rparr>
   \<and> (\<exists>out. validate toyShapeCheck toyJoi (JArr [invalidFrom, replaceWeight, invalidPath])
               testSchema (Some (noOptions\<lparr>set_abortEarly := Some False\<rparr>)) = Inr out
          \<and> res_value out = JArr [replaceWeight])"
proof -
  let ?step = "JObj [(''op'', JStr ''add''), (''path'', JStr ''/meta/current/weight''),
                     (''value'', JStr ''4'')]"
  let ?rule = "Rule OptionalPositiveNumber ''number'' [] None"
  let ?uo = "Some (noOptions\<lparr>set_abortEarly := Some False\<rparr>)"
  let ?results =
    "[\<lparr>res_error = JErr ''invalid source /description''
                     [(''op'', JStr ''move''), (''from'', JStr ''/blah''),
                      (''path'', JStr ''description'')], res_value = JNull\<rparr>,
      \<lparr>res_error = JNull, res_value = replaceWeight\<rparr>,
      \<lparr>res_error = JErr ''invalid path /blah''
                     [(''op'', JStr ''remove''), (''path'', JStr ''blah'')], res_value = JNull\<rparr>]"
  have shape: "toyShapeCheck ?step = None" by code_simp
  have path: "getProp ?step ''path'' = Inr (JStr ''/meta/current/weight'')" by simp
  have rule: "getValidator testSchema (JStr ''/meta/current/weight'') = Inr (Some ?rule)"
    by code_simp
  have op: "getProp ?step ''op'' = Inr (JStr ''add'')" by simp
  have allowed: "''add'' \<in> set (allowedOps defaultOptions)" by (simp add: defaultOptions_def)
  have "from": "getProp ?step ''from'' = Inr JUndefined" "\<not> truthy JUndefined" by simp_all
  have v: "getProp ?step ''value'' = Inr (JStr ''4'')" "truthy (JStr ''4'')" by simp_all
  have accepts: "toyJoi (JStr ''4'') ?rule (deleteAllowedOps defaultOptions) = accepted (JNum 4)"
    by code_simp
  have steps: "map (validateStep toyShapeCheck toyJoi testSchema (assignDefaults ?uo))
                 [invalidFrom, replaceWeight, invalidPath] = map Inr ?results"
    by code_simp
  have collect: "abortEarly (assignDefaults ?uo) = False"
    by (simp add: assignDefaults_def noOptions_def)
  have first: "truthy (hd [invalidFrom, replaceWeight, invalidPath])"
    by (simp add: invalidFrom_def)
  show ?thesis
    using normalized_value_kept_on_pass_only
      [where jv = toyShapeCheck and step = ?step and Jv = toyJoi,
       OF shape path rule op allowed _ "from" v refl steps _ first]
    by (simp add: accepts accepted_def collect)
qed

text \<open>
  Against the claim as stated: \<open>'-4'\<close> is converted to the number \<open>-4\<close> and then rejected
  by the rule for positive numbers. The operation validator returns value \<open>null\<close> and an
  error that carries the string \<open>'-4'\<close>; the sequence returned by \<open>validate\<close> is empty.
\<close>

theorem failed_step_not_collected:
  "joi_value (toyJoi (JStr ''-4'') (Rule OptionalPositiveNumber ''number'' [] None)
       (deleteAllowedOps defaultOptions)) = JNum (- 4)
   \<and> validateStep toyShapeCheck toyJoi testSchema defaultOptions
       (JObj [(''op'', JStr ''add''), (''path'', JStr ''/meta/current/weight''),
              (''value'', JStr ''-4'')]) =
     Inr \<lparr>res_error = JErr ''ValidationError: value must be a positive number''
                         [(''op'', JStr ''add''), (''path'', JStr ''meta/current/weight''),
                          (''value'', JStr ''-4'')],
          res_value = JNull\<rparr>
   \<and> validate toyShapeCheck toyJoi
       (JArr [JObj [(''op'', JStr ''add''), (''path'', JStr ''/meta/current/weight''),
                    (''value'', JStr ''-4'')]]) testSchema None =
     Inr \<lparr>res_error = JErr ''ValidationError: value must be a positive number''
                         [(''op'', JStr ''add''), (''path'', JStr ''meta/current/weight''),
                          (''value'', JStr ''-4'')],
          res_value = JArr []\<rparr>"
  by code_simp


text \<open>
  C3. Take a step that passes the shape check and the allow-list and carries no truthy
  value. If it is a \<open>move\<close> whose target path is resolved or tolerated (\<open>allowUnknown\<close>)
  and whose \<open>from\<close> resolves to a source rule, the engine validates \<open>undefined\<close> against
  the source rule; if it is a \<open>remove\<close> without \<open>from\<close> whose path resolves to a rule,
  the engine validates \<open>undefined\<close> against that rule. In both cases the step fails,
  with the engine's error as message, exactly when the engine rejects the absent value,
  and is returned unchanged with a null error otherwise. \<open>fail\<close> always yields an
  error object and value \<open>null\<close> here.
\<close>

theorem required_field_prechecks:
  assumes shape: "jv step = None"
    and path: "getProp step ''path'' = Inr path"
    and rule: "getValidator schema path = Inr rule"
    and op: "getProp step ''op'' = Inr (JStr opname)"
    and allowed: "opname \<in> set (allowedOps options)"
    and "from": "getProp step ''from'' = Inr from"
    and v: "getProp step ''value'' = Inr v" "\<not> truthy v"
    and opts: "opts = deleteAllowedOps options"
  shows "(opname = ''move'' \<and> (rule \<noteq> None \<or> allowUnknown options) \<and> truthy from
            \<and> getValidator schema from = Inr (Some source) \<longrightarrow>
          validateStep jv Jv schema options step =
            (case joi_error (Jv JUndefined source opts) of
               None \<Rightarrow> Inr \<lparr>res_error = JNull, res_value = JObj (objectAssign step)\<rparr>
             | Some e \<Rightarrow> fail step e))
       \<and> (opname = ''remove'' \<and> rule = Some r \<and> \<not> truthy from \<longrightarrow>
          validateStep jv Jv schema options step =
            (case joi_error (Jv JUndefined r opts) of
               None \<Rightarrow> Inr \<lparr>res_error = JNull, res_value = JObj (objectAssign step)\<rparr>
             | Some e \<Rightarrow> fail step e))
       \<and> (\<forall>e. \<exists>props. fail step e = Inr \<lparr>res_error = JErr e props, res_value = JNull\<rparr>)"
proof (intro conjI impI allI)
  assume "opname = ''move'' \<and> (rule \<noteq> None \<or> allowUnknown options) \<and> truthy from
            \<and> getValidator schema from = Inr (Some source)"
  then show "validateStep jv Jv schema options step =
            (case joi_error (Jv JUndefined source opts) of
               None \<Rightarrow> Inr \<lparr>res_error = JNull, res_value = JObj (objectAssign step)\<rparr>
             | Some e \<Rightarrow> fail step e)"
    using assms by (cases rule) (auto simp: step_defs split: option.splits)
next
  assume "opname = ''remove'' \<and> rule = Some r \<and> \<not> truthy from"
  then show "validateStep jv Jv schema options step =
            (case joi_error (Jv JUndefined r opts) of
               None \<Rightarrow> Inr \<lparr>res_error = JNull, res_value = JObj (objectAssign step)\<rparr>
             | Some e \<Rightarrow> fail step e)"
    using assms by (auto simp: step_defs split: option.splits)
next
  fix e
  show "\<exists>props. fail step e = Inr \<lparr>res_error = JErr e props, res_value = JNull\<rparr>"
    using fail_returns [OF path rule] .
qed

text \<open>
  The test suite's \<open>prevents clearing required fields\<close>: moving the required \<open>/id\<close>
  away fails, removing the optional \<open>/meta/current/weight\<close> succeeds.
\<close>

theorem required_field_prechecks_witness:
  "validateStep toyShapeCheck toyJoi testSchema defaultOptions moveId =
     Inr \<lparr>res_error = JErr ''ValidationError: value is required''
                         [(''op'', JStr ''move''), (''from'', JStr ''/id''),
                          (''path'', JStr ''description'')],
          res_value = JNull\<rparr>
   \<and> validateStep toyShapeCheck toyJoi testSchema defaultOptions removeWeight =
     Inr \<lparr>res_error = JNull, res_value = removeWeight\<rparr>"
proof -
  let ?id = "Rule RequiredString ''string'' [] None"
  let ?description = "Rule OptionalString ''string'' [] None"
  let ?weight = "Rule OptionalPositiveNumber ''number'' [] None"
  have allowed: "''move'' \<in> set (allowedOps defaultOptions)"
    "''remove'' \<in> set (allowedOps defaultOptions)" by (simp_all add: defaultOptions_def)
  have falsy: "\<not> truthy JUndefined" by simp
  have m: "toyShapeCheck moveId = None"
    "getProp moveId ''path'' = Inr (JStr ''/description'')"
    "getValidator testSchema (JStr ''/description'') = Inr (Some ?description)"
    "getProp moveId ''op'' = Inr (JStr ''move'')"
    "getProp moveId ''from'' = Inr (JStr ''/id'')"
    "getProp moveId ''value'' = Inr JUndefined"
    "getValidator testSchema (JStr ''/id'') = Inr (Some ?id)"
    "joi_error (toyJoi JUndefined ?id (deleteAllowedOps defaultOptions)) =
       Some ''ValidationError: value is required''"
    "fail moveId ''ValidationError: value is required'' =
       Inr \<lparr>res_error = JErr ''ValidationError: value is required''
                         [(''op'', JStr ''move''), (''from'', JStr ''/id''),
                          (''path'', JStr ''description'')],
          res_value = JNull\<rparr>"
    by code_simp+
  have r: "toyShapeCheck removeWeight = None"
    "getProp removeWeight ''path'' = Inr (JStr ''/meta/current/weight'')"
    "getValidator testSchema (JStr ''/meta/current/weight'') = Inr (Some ?weight)"
    "getProp removeWeight ''op'' = Inr (JStr ''remove'')"
    "getProp removeWeight ''from'' = Inr JUndefined"
    "getProp removeWeight ''value'' = Inr JUndefined"
    "joi_error (toyJoi JUndefined ?weight (deleteAllowedOps defaultOptions)) = None"
    "JObj (objectAssign removeWeight) = removeWeight"
    by code_simp+
  show ?thesis
    using required_field_prechecks
            [where jv = toyShapeCheck and step = moveId and Jv = toyJoi and source = ?id
               and r = ?description, OF m(1,2,3,4) allowed(1) m(5,6) falsy refl]
          required_field_prechecks
            [where jv = toyShapeCheck and step = removeWeight and Jv = toyJoi and source = ?id
               and r = ?weight, OF r(1,2,3,4) allowed(2) r(5,6) falsy refl]
    by (simp add: m r)
qed

text \<open>
  C4. Take a batch that is run (its first element is truthy) and whose steps all return,
  and let \<open>errors\<close> be the errors of the steps the loop processed, in input order. The
  error \<open>validate\<close> returns is null when there is none, the one error itself when there
  is exactly one, and otherwise a \<open>ValidationError\<close> with message \<open>patch invalid\<close> whose
  \<open>errors\<close> property is that list. With \<open>abortEarly\<close> false every step is processed, so
  the list holds the error of every failing step of the input, in input order.
\<close>

theorem error_aggregation:
  assumes "map (validateStep jv Jv schema (assignDefaults uo)) steps = map Inr results"
    and "steps \<noteq> []" and "truthy (hd steps)"
    and "errors = filter truthy (map res_error (processed (abortEarly (assignDefaults uo)) results))"
  shows "(\<exists>out. validate jv Jv (JArr steps) schema uo = Inr out
            \<and> res_error out =
                (case errors of
                   [] \<Rightarrow> JNull
                 | [e] \<Rightarrow> e
                 | _ \<Rightarrow> JErr ''patch invalid'' [(''errors'', JArr errors)]))
         \<and> (\<not> abortEarly (assignDefaults uo) \<longrightarrow>
              errors = filter truthy (map res_error results))"
proof -
  have run: "validate jv Jv (JArr steps) schema uo =
          Inr \<lparr>res_error =
                 (case errors of
                    [] \<Rightarrow> JNull
                  | [e] \<Rightarrow> e
                  | _ \<Rightarrow> JErr ''patch invalid'' [(''errors'', JArr errors)]),
               res_value = JArr (filter truthy (map res_value
                    (processed (abortEarly (assignDefaults uo)) results)))\<rparr>"
    unfolding assms(4)
    using validate_run [OF assms(1), of "JArr steps"] assms(2,3)
    by (simp add: encapsulate_cases bindE_def)
  have "\<not> abortEarly (assignDefaults uo) \<longrightarrow> errors = filter truthy (map res_error results)"
    unfolding assms(4) by (simp add: processed_all)
  with run show ?thesis by simp
qed

text \<open>
  The test suite's \<open>abortEarly allows gathering all errors\<close>: three steps, the first and
  the third fail.
\<close>

theorem error_aggregation_witness:
  "\<exists>out. validate toyShapeCheck toyJoi (JArr [invalidFrom, replaceWeight, invalidPath]) testSchema
            (Some (noOptions\<lparr>set_abortEarly := Some False\<rparr>)) = Inr out
     \<and> res_error out =
         JErr ''patch invalid''
           [(''errors'',
             JArr [JErr ''invalid source /description''
                     [(''op'', JStr ''move''), (''from'', JStr ''/blah''),
                      (''path'', JStr ''description'')],
                   JErr ''invalid path /blah''
                     [(''op'', JStr ''remove''), (''path'', JStr ''blah'')]])]"
proof -
  let ?uo = "Some (noOptions\<lparr>set_abortEarly := Some False\<rparr>)"
  let ?results =
    "[\<lparr>res_error = JErr ''invalid source /description''
                     [(''op'', JStr ''move''), (''from'', JStr ''/blah''),
                      (''path'', JStr ''description'')], res_value = JNull\<rparr>,
      \<lparr>res_error = JNull, res_value = replaceWeight\<rparr>,
      \<lparr>res_error = JErr ''invalid path /blah''
                     [(''op'', JStr ''remove''), (''path'', JStr ''blah'')], res_value = JNull\<rparr>]"
  have steps: "map (validateStep toyShapeCheck toyJoi testSchema (assignDefaults ?uo))
                 [invalidFrom, replaceWeight, invalidPath] = map Inr ?results"
    by code_simp
  have collect: "abortEarly (assignDefaults ?uo) = False"
    by (simp add: assignDefaults_def noOptions_def)
  have first: "truthy (hd [invalidFrom, replaceWeight, invalidPath])"
    by (simp add: invalidFrom_def)
  show ?thesis
    using error_aggregation [OF steps _ first refl]
    by (simp add: collect)
qed

text \<open>
  C5, as amended. Take a step that passes the shape check and the allow-list and whose
  target path resolves to absent while \<open>allowUnknown\<close> is set. The remove pre-check and
  the value validation are skipped. The source path of a step with a \<open>from\<close> is still
  resolved, and a \<open>move\<close> whose source resolves to a rule still has \<open>undefined\<close>
  validated against that rule: the step fails when the engine rejects it. In every other
  case the step is returned unchanged with a null error.
\<close>

theorem unknown_target_still_checks_move_source:
  assumes shape: "jv step = None"
    and path: "getProp step ''path'' = Inr path"
    and rule: "getValidator schema path = Inr None"
    and unknown: "allowUnknown options"
    and op: "getProp step ''op'' = Inr (JStr opname)"
    and allowed: "opname \<in> set (allowedOps options)"
    and "from": "getProp step ''from'' = Inr from"
    and source: "getValidator schema from = Inr source \<or> \<not> truthy from"
  shows "validateStep jv Jv schema options step =
           (case (if truthy from \<and> opname = ''move'' then source else None) of
              None \<Rightarrow> Inr \<lparr>res_error = JNull, res_value = JObj (objectAssign step)\<rparr>
            | Some s \<Rightarrow>
                (case joi_error (Jv JUndefined s (deleteAllowedOps options)) of
                   None \<Rightarrow> Inr \<lparr>res_error = JNull, res_value = JObj (objectAssign step)\<rparr>
                 | Some e \<Rightarrow> fail step e))
         \<and> (\<forall>e. \<exists>props. fail step e = Inr \<lparr>res_error = JErr e props, res_value = JNull\<rparr>)"
proof
  obtain v where v: "getProp step ''value'' = Inr v"
    using getProp_object [OF path] by blast
  show "validateStep jv Jv schema options step =
           (case (if truthy from \<and> opname = ''move'' then source else None) of
              None \<Rightarrow> Inr \<lparr>res_error = JNull, res_value = JObj (objectAssign step)\<rparr>
            | Some s \<Rightarrow>
                (case joi_error (Jv JUndefined s (deleteAllowedOps options)) of
                   None \<Rightarrow> Inr \<lparr>res_error = JNull, res_value = JObj (objectAssign step)\<rparr>
                 | Some e \<Rightarrow> fail step e))"
    using assms v by (auto simp: step_defs split: option.splits)
  show "\<forall>e. \<exists>props. fail step e = Inr \<lparr>res_error = JErr e props, res_value = JNull\<rparr>"
    using fail_returns [OF path rule] by blast
qed

text \<open>
  With \<open>allowUnknown\<close>: moving the required \<open>/id\<close> to the unknown \<open>/blah\<close> fails, removing
  the unknown \<open>/blah\<close> passes unchanged.
\<close>

theorem unknown_target_still_checks_move_source_witness:
  "validateStep toyShapeCheck toyJoi testSchema (defaultOptions\<lparr>allowUnknown := True\<rparr>) moveIdAway =
     Inr \<lparr>res_error = JErr ''ValidationError: value is required''
                         [(''op'', JStr ''move''), (''from'', JStr ''/id''), (''path'', JStr ''blah'')],
          res_value = JNull\<rparr>
   \<and> validateStep toyShapeCheck toyJoi testSchema (defaultOptions\<lparr>allowUnknown := True\<rparr>) invalidPath =
     Inr \<lparr>res_error = JNull, res_value = invalidPath\<rparr>"
proof -
  let ?options = "defaultOptions\<lparr>allowUnknown := True\<rparr>"
  let ?id = "Rule RequiredString ''string'' [] None"
  have unknown: "allowUnknown ?options" by simp
  have allowed: "''move'' \<in> set (allowedOps ?options)"
    "''remove'' \<in> set (allowedOps ?options)" by (simp_all add: defaultOptions_def)
  have m: "toyShapeCheck moveIdAway = None"
    "getProp moveIdAway ''path'' = Inr (JStr ''/blah'')"
    "getValidator testSchema (JStr ''/blah'') = Inr None"
    "getProp moveIdAway ''op'' = Inr (JStr ''move'')"
    "getProp moveIdAway ''from'' = Inr (JStr ''/id'')"
    "getValidator testSchema (JStr ''/id'') = Inr (Some ?id)"
    "joi_error (toyJoi JUndefined ?id (deleteAllowedOps ?options)) =
       Some ''ValidationError: value is required''"
    "fail moveIdAway ''ValidationError: value is required'' =
       Inr \<lparr>res_error = JErr ''ValidationError: value is required''
                         [(''op'', JStr ''move''), (''from'', JStr ''/id''), (''path'', JStr ''blah'')],
          res_value = JNull\<rparr>"
    by code_simp+
  have r: "toyShapeCheck invalidPath = None"
    "getProp invalidPath ''path'' = Inr (JStr ''/blah'')"
    "getProp invalidPath ''op'' = Inr (JStr ''remove'')"
    "getProp invalidPath ''from'' = Inr JUndefined"
    "JObj (objectAssign invalidPath) = invalidPath"
    by code_simp+
  have falsy: "getValidator testSchema JUndefined = Inr None \<or> \<not> truthy JUndefined" by simp
  show ?thesis
    using unknown_target_still_checks_move_source
            [where jv = toyShapeCheck and step = moveIdAway and Jv = toyJoi,
             OF m(1,2,3) unknown m(4) allowed(1) m(5) disjI1 [OF m(6)]]
          unknown_target_still_checks_move_source
            [where jv = toyShapeCheck and step = invalidPath and Jv = toyJoi,
             OF r(1,2) m(3) unknown r(3) allowed(2) r(4) falsy]
    by (simp add: m r)
qed

text \<open>
  Against the claim as stated: the target \<open>/blah\<close> resolves to absent and \<open>allowUnknown\<close>
  is set, yet the move-source pre-check runs and the step fails.
\<close>

theorem unknown_target_move_of_required_source_fails:
  "getValidator testSchema (JStr ''/blah'') = Inr None
   \<and> validateStep toyShapeCheck toyJoi testSchema (defaultOptions\<lparr>allowUnknown := True\<rparr>) moveIdAway =
     Inr \<lparr>res_error = JErr ''ValidationError: value is required''
                         [(''op'', JStr ''move''), (''from'', JStr ''/id''), (''path'', JStr ''blah'')],
          res_value = JNull\<rparr>"
  by code_simp

text \<open>
  C6. Line 35 renders the path with \<open>replace('/', '.')\<close>, which replaces the first slash
  only, and \<open>substr(1)\<close> then drops that character: the error of a step on
  \<open>/meta/current/weight\<close> has the path \<open>meta/current/weight\<close>, not \<open>meta.current.weight\<close>.
  The second input is the failing \<open>add\<close> of the test suite, run through \<open>validate\<close>.
\<close>

theorem error_path_keeps_inner_slashes:
  "ValidationError ''invalid''
     (JObj [(''op'', JStr ''remove''), (''path'', JStr ''/meta/current/weight'')]) =
   Inr (JErr ''invalid''
          [(''op'', JStr ''remove''), (''path'', JStr ''meta/current/weight'')])
   \<and> validate toyShapeCheck toyJoi addBadWeight testSchema None =
     Inr \<lparr>res_error = JErr ''ValidationError: value must be a number''
                         [(''op'', JStr ''add''), (''path'', JStr ''meta/current/weight''),
                          (''value'', JStr ''blah'')],
          res_value = JArr []\<rparr>"
  by code_simp

text \<open>
  C7, as amended. An empty array and a falsy input that is no array (\<open>null\<close>,
  \<open>undefined\<close>, \<open>false\<close>, \<open>0\<close>, the empty string) yield the \<open>empty patch\<close> error, which
  carries no field of a step, and an empty value sequence. A truthy scalar is wrapped
  into a one-element batch and handed to the operation validator: the error returned is
  that of the shape check when it refuses the scalar, and \<open>disallowed op undefined\<close>
  otherwise; it is not null either, but it is a per-operation error.
\<close>

theorem empty_or_scalar_input:
  "((patch = JArr [] \<or> \<not> truthy patch) \<longrightarrow>
      validate jv Jv patch schema uo =
        Inr \<lparr>res_error = JErr ''empty patch'' [], res_value = JArr []\<rparr>)
   \<and> (scalar patch \<and> truthy patch \<longrightarrow>
      validate jv Jv patch schema uo =
        Inr \<lparr>res_error =
               JErr (case jv patch of
                       Some formatErr \<Rightarrow> errorToString formatErr
                     | None \<Rightarrow> ''disallowed op undefined'') [],
             res_value = JArr []\<rparr>)"
proof (intro conjI impI)
  assume "patch = JArr [] \<or> \<not> truthy patch"
  then show "validate jv Jv patch schema uo =
        Inr \<lparr>res_error = JErr ''empty patch'' [], res_value = JArr []\<rparr>"
    by (intro validate_empty) (auto split: jsval.splits list.splits)
next
  assume a: "scalar patch \<and> truthy patch"
  let ?out = "\<lparr>res_error =
               JErr (case jv patch of
                       Some formatErr \<Rightarrow> errorToString formatErr
                     | None \<Rightarrow> ''disallowed op undefined'') [],
             res_value = JNull\<rparr>"
  have props: "\<And>k. getProp patch k = Inr JUndefined"
    using a by (cases patch) simp_all
  have err: "\<And>msg. fail patch msg = Inr \<lparr>res_error = JErr msg [], res_value = JNull\<rparr>"
    using a by (simp add: fail_def ValidationError_def addProp_def bindE_def props)
  have root: "getValidator schema JUndefined = Inr (Some schema)"
    by (simp add: getValidator_def pointerParts_def bindE_def)
  have step: "validateStep jv Jv schema (assignDefaults uo) patch = Inr ?out"
    by (cases "jv patch")
       (simp_all add: validateStep_def Let_def bindE_def props root indexOf_found_def err
          ValidationError_def)
  have "map (validateStep jv Jv schema (assignDefaults uo)) [patch] = map Inr [?out]"
    using step by simp
  from validate_run [OF this, of patch] a
  show "validate jv Jv patch schema uo =
        Inr \<lparr>res_error =
               JErr (case jv patch of
                       Some formatErr \<Rightarrow> errorToString formatErr
                     | None \<Rightarrow> ''disallowed op undefined'') [],
             res_value = JArr []\<rparr>"
    by (cases patch) (simp_all add: encapsulate_cases bindE_def)
qed

text \<open>The inputs of the test suite's \<open>rejects non-patch inputs\<close> and \<open>rejects empty patches\<close>.\<close>

theorem empty_or_scalar_input_witness:
  "validate toyShapeCheck toyJoi JNull testSchema None =
     Inr \<lparr>res_error = JErr ''empty patch'' [], res_value = JArr []\<rparr>
   \<and> validate toyShapeCheck toyJoi (JArr []) testSchema None =
     Inr \<lparr>res_error = JErr ''empty patch'' [], res_value = JArr []\<rparr>
   \<and> validate toyShapeCheck toyJoi (JNum 5) testSchema None =
     Inr \<lparr>res_error = JErr ''ValidationError: Operation is not an object'' [],
          res_value = JArr []\<rparr>"
proof -
  have shape: "toyShapeCheck (JNum 5) = Some ''Operation is not an object''" by code_simp
  show ?thesis
    using empty_or_scalar_input [of JNull toyShapeCheck toyJoi testSchema None]
      empty_or_scalar_input [of "JArr []" toyShapeCheck toyJoi testSchema None]
      empty_or_scalar_input [of "JNum 5" toyShapeCheck toyJoi testSchema None]
    by (simp add: shape errorToString_def)
qed

text \<open>
  Against the claim as stated: for the scalar \<open>'blah'\<close> the error is the shape check's,
  not \<open>empty patch\<close>.
\<close>

theorem truthy_scalar_is_not_empty_patch:
  "validate toyShapeCheck toyJoi (JStr ''blah'') testSchema None =
     Inr \<lparr>res_error = JErr ''ValidationError: Operation is not an object'' [],
          res_value = JArr []\<rparr>"
  by code_simp

text \<open>
  C8. An \<open>add\<close>, \<open>replace\<close> or \<open>test\<close> that passes the shape check and the allow-list,
  has no \<open>from\<close>, whose target path resolves to a rule and whose value is falsy is
  returned unchanged with a null error, whatever the engine would say of the value: the
  result does not depend on \<open>Jv\<close>.
\<close>

theorem falsy_value_skips_validation:
  assumes shape: "jv step = None"
    and path: "getProp step ''path'' = Inr path"
    and rule: "getValidator schema path = Inr (Some r)"
    and op: "getProp step ''op'' = Inr (JStr opname)"
    and kind: "opname \<in> {''add'', ''replace'', ''test''}"
    and allowed: "opname \<in> set (allowedOps options)"
    and "from": "getProp step ''from'' = Inr from" "\<not> truthy from"
    and v: "getProp step ''value'' = Inr v" "\<not> truthy v"
  shows "validateStep jv Jv schema options step =
           Inr \<lparr>res_error = JNull, res_value = JObj (objectAssign step)\<rparr>"
  using assms by (auto simp: step_defs)

text \<open>
  Adding the empty string as \<open>/name\<close>: the rule for \<open>name\<close> rejects the empty string,
  the step passes.
\<close>

theorem falsy_value_skips_validation_witness:
  "joi_error (toyJoi (JStr []) (Rule RequiredString ''string'' [] None)
      (deleteAllowedOps defaultOptions)) = Some ''ValidationError: value is not allowed to be empty''
   \<and> validateStep toyShapeCheck toyJoi testSchema defaultOptions addEmptyName =
     Inr \<lparr>res_error = JNull, res_value = addEmptyName\<rparr>"
proof -
  let ?name = "Rule RequiredString ''string'' [] None"
  have rejects: "joi_error (toyJoi (JStr []) ?name (deleteAllowedOps defaultOptions)) =
      Some ''ValidationError: value is not allowed to be empty''"
    by code_simp
  have kind: "''add'' \<in> {''add'', ''replace'', ''test''}" by simp
  have allowed: "''add'' \<in> set (allowedOps defaultOptions)" by (simp add: defaultOptions_def)
  have falsy: "\<not> truthy JUndefined" "\<not> truthy (JStr [])" by simp_all
  have a: "toyShapeCheck addEmptyName = None"
    "getProp addEmptyName ''path'' = Inr (JStr ''/name'')"
    "getValidator testSchema (JStr ''/name'') = Inr (Some ?name)"
    "getProp addEmptyName ''op'' = Inr (JStr ''add'')"
    "getProp addEmptyName ''from'' = Inr JUndefined"
    "getProp addEmptyName ''value'' = Inr (JStr [])"
    "JObj (objectAssign addEmptyName) = addEmptyName"
    by code_simp+
  show ?thesis
    using rejects
      falsy_value_skips_validation
        [where jv = toyShapeCheck and step = addEmptyName and Jv = toyJoi,
         OF a(1,2,3,4) kind allowed a(5) falsy(1) a(6) falsy(2)]
    by (simp add: a)
qed

text \<open>
  C9. For a \<open>copy\<close> or \<open>move\<close> that passes the shape check and the allow-list, whose
  target path \<open>p\<close> resolves and whose \<open>from\<close> resolves to no node while \<open>allowUnknown\<close> is
  false, the error message is \<open>invalid source\<close> followed by the target path \<open>p\<close>; the
  \<open>from\<close> path does not enter the message.
\<close>

theorem invalid_source_names_target_path:
  assumes shape: "jv step = None"
    and path: "getProp step ''path'' = Inr (JStr p)"
    and rule: "getValidator schema (JStr p) = Inr (Some r)"
    and op: "getProp step ''op'' = Inr (JStr opname)"
    and kind: "opname \<in> {''copy'', ''move''}"
    and allowed: "opname \<in> set (allowedOps options)"
    and "from": "getProp step ''from'' = Inr from" "truthy from"
    and source: "getValidator schema from = Inr None"
    and known: "\<not> allowUnknown options"
  shows "\<exists>props. validateStep jv Jv schema options step =
           Inr \<lparr>res_error = JErr (''invalid source '' @ p) props, res_value = JNull\<rparr>"
proof -
  have "validateStep jv Jv schema options step = fail step (''invalid source '' @ p)"
    using assms by (auto simp: step_defs)
  then show ?thesis
    using fail_returns [OF path rule, of "''invalid source '' @ p"] by simp
qed

text \<open>The test suite's \<open>invalidFrom\<close>: the source is \<open>/blah\<close>, the message names \<open>/description\<close>.\<close>

theorem invalid_source_names_target_path_witness:
  "getProp invalidFrom ''from'' = Inr (JStr ''/blah'')
   \<and> (\<exists>props. validateStep toyShapeCheck toyJoi testSchema defaultOptions invalidFrom =
         Inr \<lparr>res_error = JErr ''invalid source /description'' props, res_value = JNull\<rparr>)"
proof -
  let ?description = "Rule OptionalString ''string'' [] None"
  have kind: "''move'' \<in> {''copy'', ''move''}" by simp
  have allowed: "''move'' \<in> set (allowedOps defaultOptions)" by (simp add: defaultOptions_def)
  have known: "\<not> allowUnknown defaultOptions" by (simp add: defaultOptions_def)
  have truthy: "truthy (JStr ''/blah'')" by simp
  have a: "toyShapeCheck invalidFrom = None"
    "getProp invalidFrom ''path'' = Inr (JStr ''/description'')"
    "getValidator testSchema (JStr ''/description'') = Inr (Some ?description)"
    "getProp invalidFrom ''op'' = Inr (JStr ''move'')"
    "getProp invalidFrom ''from'' = Inr (JStr ''/blah'')"
    "getValidator testSchema (JStr ''/blah'') = Inr None"
    by code_simp+
  show ?thesis
    using invalid_source_names_target_path
        [where jv = toyShapeCheck and step = invalidFrom and Jv = toyJoi,
         OF a(1,2,3,4) kind allowed a(5) truthy a(6) known] a(5)
    by simp
qed

text \<open>
  C10. A patch array whose first element is falsy yields the \<open>empty patch\<close> error and
  an empty value sequence, whatever the shape check, the engine and the later elements
  are: none of its elements is processed.
\<close>

theorem falsy_first_element:
  "\<not> truthy first \<Longrightarrow>
   validate jv Jv (JArr (first # rest)) schema uo =
     Inr \<lparr>res_error = JErr ''empty patch'' [], res_value = JArr []\<rparr>"
  by (rule validate_empty) simp

text \<open>A \<open>null\<close> followed by a step that is valid when it stands alone.\<close>

theorem falsy_first_element_witness:
  "\<not> truthy JNull
   \<and> validate toyShapeCheck toyJoi
       (JArr [JNull, JObj [(''op'', JStr ''remove''), (''path'', JStr ''/description'')]])
       testSchema None =
     Inr \<lparr>res_error = JErr ''empty patch'' [], res_value = JArr []\<rparr>
   \<and> validate toyShapeCheck toyJoi
       (JArr [JObj [(''op'', JStr ''remove''), (''path'', JStr ''/description'')]])
       testSchema None =
     Inr \<lparr>res_error = JNull,
          res_value = JArr [JObj [(''op'', JStr ''remove''), (''path'', JStr ''/description'')]]\<rparr>"
proof -
  have falsy: "\<not> truthy JNull" by simp
  have later: "validate toyShapeCheck toyJoi
       (JArr [JObj [(''op'', JStr ''remove''), (''path'', JStr ''/description'')]])
       testSchema None =
     Inr \<lparr>res_error = JNull,
          res_value = JArr [JObj [(''op'', JStr ''remove''), (''path'', JStr ''/description'')]]\<rparr>"
    by code_simp
  show ?thesis
    using falsy later falsy_first_element [OF falsy, of toyShapeCheck toyJoi _ testSchema None]
    by simp
qed

end
